theory Spec2Isabelle
  imports Main
begin

section \<open>The ZMQ notification printer of matchingEngine.py\<close>

text \<open>
  The script subscribes to four topics of a node's ZMQ interface and, for every multi-part
  message it receives, prints a header line carrying the sequence number and then the hex
  dump of the body. The method \<open>ZMQHandler.handle\<close> does all of it and, as its last
  statement, schedules itself again for the next message.

  A Python \<open>bytes\<close> object is a list of 8-bit characters, and so is the (ASCII) text the
  script prints: both are \<open>char list\<close>. A multi-part message is a list of such parts.
\<close>

type_synonym bytes = "char list"
type_synonym multipart = "bytes list"

text \<open>The exceptions that the statements of the script can raise.\<close>

datatype error = IndexError | StructError | OSError

text \<open>
  What \<open>print\<close> is called with: the script prints \<open>str\<close> objects (the header lines) and
  \<open>bytes\<close> objects (the results of \<open>binascii.hexlify\<close>).
\<close>

datatype printed = PStr string | PBytes bytes

subsection \<open>Library functions used by the script\<close>

text \<open>
  \<open>xs[i]\<close> on a Python list: a negative index counts from the end, and an index outside
  the list raises \<open>IndexError\<close>.
\<close>

definition getitem :: "'a list \<Rightarrow> int \<Rightarrow> error + 'a" where
  "getitem xs i =
     (if 0 \<le> i \<and> i < int (length xs) then Inr (xs ! nat i)
      else if i < 0 \<and> - i \<le> int (length xs) then Inr (xs ! nat (int (length xs) + i))
      else Inl IndexError)"

text \<open>
  \<open>struct.unpack('<I', b)[-1]\<close>: the format \<open><I\<close> reads exactly four bytes as one
  unsigned integer, least significant byte first, and returns a tuple of that one value
  (of which \<open>[-1]\<close> is the only element); any other length raises \<open>struct.error\<close>.
\<close>

definition struct_unpack_I :: "bytes \<Rightarrow> error + nat" where
  "struct_unpack_I b =
     (if length b = 4 then Inr (foldr (\<lambda>c acc. of_char c + 256 * acc) b 0)
      else Inl StructError)"

text \<open>\<open>str(n)\<close> for a non-negative Python integer: its decimal digits, without padding.\<close>

definition digit_char :: "nat \<Rightarrow> char" where
  "digit_char d = ''0123456789'' ! d"

fun str_nat :: "nat \<Rightarrow> string" where
  "str_nat n = (if n < 10 then [digit_char n] else str_nat (n div 10) @ [digit_char (n mod 10)])"

declare str_nat.simps [simp del]

text \<open>\<open>binascii.hexlify(b)\<close>: two lower-case hexadecimal digits for every byte.\<close>

definition hex_char :: "nat \<Rightarrow> char" where
  "hex_char d = ''0123456789abcdef'' ! d"

definition hexlify :: "bytes \<Rightarrow> bytes" where
  "hexlify b = concat (map (\<lambda>c. [hex_char (of_char c div 16), hex_char (of_char c mod 16)]) b)"

subsection \<open>Statements that may raise, in sequence\<close>

text \<open>
  A statement acting on the outside world \<open>'w\<close> (here: standard output) either completes
  or raises; in both cases the world may have changed. \<open>then_do\<close> is the semicolon: the
  second statement runs only when the first one did not raise.
\<close>

type_synonym 'w outcome = "error option \<times> 'w"

definition then_do :: "'w outcome \<Rightarrow> ('w \<Rightarrow> 'w outcome) \<Rightarrow> 'w outcome" where
  "then_do r f = (case r of (None, w) \<Rightarrow> f w | (Some e, w) \<Rightarrow> (Some e, w))"

text \<open>
  \<open>print\<close> writes to whatever the process has as standard output, so the script's
  behaviour is stated for any printer. \<open>print_ok\<close> is a standard output that accepts
  every write and keeps what was printed, in order.
\<close>

type_synonym 'w printer = "printed \<Rightarrow> 'w \<Rightarrow> 'w outcome"

definition print_ok :: "printed list printer" where
  "print_ok p out = (None, out @ [p])"

text \<open>
  A standard output on which exactly one call of \<open>print\<close>, the one numbered \<open>k\<close>, raises
  (a non-blocking pipe that is momentarily full, say); the world keeps the lines printed
  and the number of calls made so far.
\<close>

definition print_flaky :: "nat \<Rightarrow> (printed list \<times> nat) printer" where
  "print_flaky k p w =
     (if snd w = k then (Some OSError, (fst w, Suc (snd w)))
      else (None, (fst w @ [p], Suc (snd w))))"

subsection \<open>ZMQHandler.handle\<close>

text \<open>
  The first block of \<open>handle\<close>, from the received message \<open>msg\<close> to the three local
  variables \<open>topic\<close>, \<open>body\<close> and \<open>sequence\<close>:
  \<^verbatim>\<open>
        topic = msg[0]
        body = msg[1]
        sequence = "Unknown"
        if len(msg[-1]) == 4:
            msgSequence = struct.unpack('<I', msg[-1])[-1]
            sequence = str(msgSequence)
  \<close>
\<close>

definition handle_locals :: "multipart \<Rightarrow> error + (bytes \<times> bytes \<times> string)" where
  "handle_locals msg =
     (case getitem msg 0 of Inl e \<Rightarrow> Inl e | Inr topic \<Rightarrow>
      case getitem msg 1 of Inl e \<Rightarrow> Inl e | Inr body \<Rightarrow>
      case getitem msg (- 1) of Inl e \<Rightarrow> Inl e | Inr trailing \<Rightarrow>
        if length trailing = 4 then
          (case struct_unpack_I trailing of Inl e \<Rightarrow> Inl e
           | Inr msgSequence \<Rightarrow> Inr (topic, body, str_nat msgSequence))
        else Inr (topic, body, ''Unknown''))"

text \<open>
  The second block, the chain of comparisons of \<open>topic\<close> with the four literals; each
  branch prints a header and then the hex dump, and a topic that matches none prints
  nothing:
  \<^verbatim>\<open>
        if topic == b"hashblock":
            print('- HASH BLOCK ('+sequence+') -')
            print(binascii.hexlify(body))
        elif topic == b"hashtx":
            print('- HASH TX  ('+sequence+') -')
            print(binascii.hexlify(body))
        elif topic == b"rawblock":
            print('- RAW BLOCK HEADER ('+sequence+') -')
            print(binascii.hexlify(body[:80]))
        elif topic == b"rawtx":
            print('- RAW TX ('+sequence+') -')
            print(binascii.hexlify(body))
  \<close>
\<close>

definition handle_print :: "'w printer \<Rightarrow> bytes \<Rightarrow> bytes \<Rightarrow> string \<Rightarrow> 'w \<Rightarrow> 'w outcome" where
  "handle_print pr topic body sequence w =
     (if topic = ''hashblock'' then
        then_do (pr (PStr (''- HASH BLOCK ('' @ sequence @ '') -'')) w)
                (pr (PBytes (hexlify body)))
      else if topic = ''hashtx'' then
        then_do (pr (PStr (''- HASH TX  ('' @ sequence @ '') -'')) w)
                (pr (PBytes (hexlify body)))
      else if topic = ''rawblock'' then
        then_do (pr (PStr (''- RAW BLOCK HEADER ('' @ sequence @ '') -'')) w)
                (pr (PBytes (hexlify (take 80 body))))
      else if topic = ''rawtx'' then
        then_do (pr (PStr (''- RAW TX ('' @ sequence @ '') -'')) w)
                (pr (PBytes (hexlify body)))
      else (None, w))"

text \<open>
  One run of the body of \<open>handle\<close> on a received message, up to (not including) the
  rescheduling in its last line. An exception of the first block leaves the world as it
  was.
\<close>

definition handle :: "'w printer \<Rightarrow> multipart \<Rightarrow> 'w \<Rightarrow> 'w outcome" where
  "handle pr msg w =
     (case handle_locals msg of
        Inl e \<Rightarrow> (Some e, w)
      | Inr (topic, body, sequence) \<Rightarrow> handle_print pr topic body sequence w)"

text \<open>
  The chain of \<open>handle\<close> tasks that \<open>start\<close> sets off, on the messages that arrive (in
  their order of arrival). The last statement of \<open>handle\<close>,
  \<^verbatim>\<open>asyncio.ensure_future(self.handle())\<close>, creates the task for the next message; it is
  reached only when nothing before it raised, since \<open>handle\<close> has no \<open>try\<close>. An
  exception therefore ends the chain: it stays in the finished task, and no task is left
  to receive. With no message left, the current task waits in \<open>recv_multipart\<close>.
\<close>

fun run :: "'w printer \<Rightarrow> multipart list \<Rightarrow> 'w \<Rightarrow> 'w outcome" where
  "run pr [] w = (None, w)"
| "run pr (msg # msgs) w =
     (case handle pr msg w of
        (Some e, w') \<Rightarrow> (Some e, w')
      | (None, w') \<Rightarrow> run pr msgs w')"

text \<open>What one message makes the script print, on a standard output that accepts it.\<close>

definition printed_for :: "multipart \<Rightarrow> printed list" where
  "printed_for msg = snd (handle print_ok msg [])"

section \<open>Properties\<close>

subsection \<open>Indexing a message\<close>

lemma getitem_zero: "2 \<le> length xs \<Longrightarrow> getitem xs 0 = Inr (xs ! 0)"
  by (cases xs) (simp_all add: getitem_def)

lemma getitem_one: "2 \<le> length xs \<Longrightarrow> getitem xs 1 = Inr (xs ! 1)"
  by (simp add: getitem_def)

lemma getitem_minus_one: "xs \<noteq> [] \<Longrightarrow> getitem xs (- 1) = Inr (last xs)"
proof -
  assume ne: "xs \<noteq> []"
  then obtain n where n: "length xs = Suc n"
    by (cases xs) simp_all
  have "last xs = xs ! n"
    using ne n by (simp add: last_conv_nth)
  then show ?thesis
    by (simp add: getitem_def n)
qed

subsection \<open>The four-byte sequence number\<close>

lemma struct_unpack_I_four:
  "struct_unpack_I [b0, b1, b2, b3] =
     Inr (of_char b0 + 256 * of_char b1 + 65536 * of_char b2 + 16777216 * of_char b3)"
  by (simp add: struct_unpack_I_def)

lemma of_char_less_256: "(of_char c :: nat) < 256"
proof -
  have "(of_char c :: nat) mod 256 < 256" by simp
  then show ?thesis by (simp only: of_char_mod_256)
qed

lemma length_four:
  assumes "length b = 4"
  obtains b0 b1 b2 b3 where "b = [b0, b1, b2, b3]"
proof -
  from assms have "length b = Suc (Suc (Suc (Suc 0)))" by simp
  then show ?thesis
    using that by (auto simp: length_Suc_conv)
qed

lemma struct_unpack_I_bound:
  "struct_unpack_I b = Inr n \<Longrightarrow> n < 2 ^ 32"
proof -
  assume a: "struct_unpack_I b = Inr n"
  then have len: "length b = 4" by (simp add: struct_unpack_I_def split: if_splits)
  then obtain b0 b1 b2 b3 where b: "b = [b0, b1, b2, b3]"
    by (rule length_four)
  have n: "n = of_char b0 + 256 * of_char b1 + 65536 * of_char b2 + 16777216 * of_char b3"
    using a unfolding b by (simp add: struct_unpack_I_def)
  have "n < 4294967296"
    using of_char_less_256 [of b0] of_char_less_256 [of b1] of_char_less_256 [of b2]
      of_char_less_256 [of b3] unfolding n by linarith
  then show ?thesis by simp
qed

subsection \<open>The local variables of handle\<close>

lemma handle_locals_frame:
  assumes "2 \<le> length msg"
  shows "handle_locals msg =
     (if length (last msg) = 4
      then (case struct_unpack_I (last msg) of Inl e \<Rightarrow> Inl e
            | Inr n \<Rightarrow> Inr (msg ! 0, msg ! 1, str_nat n))
      else Inr (msg ! 0, msg ! 1, ''Unknown''))"
proof -
  from assms have "msg \<noteq> []" by auto
  then show ?thesis
    using assms
    by (simp add: handle_locals_def getitem_zero getitem_one getitem_minus_one split: sum.splits)
qed

lemma handle_locals_short: "length msg < 2 \<Longrightarrow> handle_locals msg = Inl IndexError"
  by (cases msg) (simp_all add: handle_locals_def getitem_def)

subsection \<open>Decimal and hexadecimal text\<close>

lemma digit_char_inj: "a < 10 \<Longrightarrow> b < 10 \<Longrightarrow> digit_char a = digit_char b \<Longrightarrow> a = b"
  unfolding digit_char_def by (simp add: nth_eq_iff_index_eq)

lemma digit_char_in: "d < 10 \<Longrightarrow> digit_char d \<in> set ''0123456789''"
  unfolding digit_char_def by (rule nth_mem) simp

lemma str_nat_nonempty: "str_nat n \<noteq> []"
  by (subst str_nat.simps) simp

lemma str_nat_digits: "set (str_nat n) \<subseteq> set ''0123456789''"
proof (induction n rule: str_nat.induct)
  case (1 n)
  show ?case
  proof (cases "n < 10")
    case True
    then show ?thesis
      using digit_char_in [of n] by (subst str_nat.simps) simp
  next
    case False
    have "n mod 10 < 10" by simp
    then have "digit_char (n mod 10) \<in> set ''0123456789''" by (rule digit_char_in)
    with False "1.IH" show ?thesis
      by (subst str_nat.simps) simp
  qed
qed

lemma str_nat_not_Unknown: "str_nat n \<noteq> ''Unknown''"
proof
  assume "str_nat n = ''Unknown''"
  then have "CHR ''U'' \<in> set (str_nat n)" by simp
  with str_nat_digits [of n] have "CHR ''U'' \<in> set ''0123456789''" by blast
  then show False by simp
qed

lemma str_nat_inj: "str_nat a = str_nat b \<Longrightarrow> a = b"
proof (induction a arbitrary: b rule: str_nat.induct)
  case (1 a)
  show ?case
  proof (cases "a < 10")
    case a: True
    show ?thesis
    proof (cases "b < 10")
      case True
      with a "1.prems" show ?thesis
        by (simp add: str_nat.simps [of a] str_nat.simps [of b] digit_char_inj)
    next
      case False
      with a "1.prems" str_nat_nonempty [of "b div 10"] show ?thesis
        by (simp add: str_nat.simps [of a] str_nat.simps [of b])
    qed
  next
    case a: False
    show ?thesis
    proof (cases "b < 10")
      case True
      with a "1.prems" str_nat_nonempty [of "a div 10"] show ?thesis
        by (simp add: str_nat.simps [of a] str_nat.simps [of b])
    next
      case False
      with a "1.prems" have eq: "str_nat (a div 10) = str_nat (b div 10)"
        and d: "digit_char (a mod 10) = digit_char (b mod 10)"
        by (simp_all add: str_nat.simps [of a] str_nat.simps [of b])
      from a eq have "a div 10 = b div 10" by (rule "1.IH")
      moreover from d have "a mod 10 = b mod 10" by (simp add: digit_char_inj)
      ultimately have "a div 10 * 10 + a mod 10 = b div 10 * 10 + b mod 10" by simp
      then show ?thesis by simp
    qed
  qed
qed

lemma hex_char_inj: "a < 16 \<Longrightarrow> b < 16 \<Longrightarrow> hex_char a = hex_char b \<Longrightarrow> a = b"
  unfolding hex_char_def by (simp add: nth_eq_iff_index_eq)

lemma hex_pair_inj:
  assumes "hex_char (of_char c div 16) = hex_char (of_char d div 16)"
    and "hex_char (of_char c mod 16) = hex_char (of_char d mod 16)"
  shows "c = d"
proof -
  have c: "(of_char c :: nat) < 256" and d: "(of_char d :: nat) < 256"
    by (rule of_char_less_256)+
  then have "(of_char c :: nat) div 16 < 16" and "(of_char d :: nat) div 16 < 16"
    by arith+
  with assms(1) have hi: "(of_char c :: nat) div 16 = of_char d div 16"
    by (simp add: hex_char_inj)
  from assms(2) have lo: "(of_char c :: nat) mod 16 = of_char d mod 16"
    by (simp add: hex_char_inj)
  have "(of_char c :: nat) = of_char c div 16 * 16 + of_char c mod 16" by simp
  also have "\<dots> = of_char d div 16 * 16 + of_char d mod 16" by (simp only: hi lo)
  also have "\<dots> = of_char d" by simp
  finally show ?thesis by simp
qed

lemma hexlify_Nil: "hexlify [] = []"
  by (simp add: hexlify_def)

lemma hexlify_Cons:
  "hexlify (c # b) = hex_char (of_char c div 16) # hex_char (of_char c mod 16) # hexlify b"
  by (simp add: hexlify_def)

lemma hexlify_inj: "hexlify a = hexlify b \<Longrightarrow> a = b"
proof (induction a arbitrary: b)
  case Nil
  then show ?case by (cases b) (simp_all add: hexlify_Nil hexlify_Cons)
next
  case (Cons c a)
  then obtain d b' where b: "b = d # b'"
    by (cases b) (simp_all add: hexlify_Nil hexlify_Cons)
  with Cons.prems have hi: "hex_char (of_char c div 16) = hex_char (of_char d div 16)"
    and lo: "hex_char (of_char c mod 16) = hex_char (of_char d mod 16)"
    and tl: "hexlify a = hexlify b'"
    by (simp_all add: hexlify_Cons)
  from hi lo have "c = d" by (rule hex_pair_inj)
  moreover from tl have "a = b'" by (rule Cons.IH)
  ultimately show ?case by (simp add: b)
qed

lemma length_hexlify: "length (hexlify b) = 2 * length b"
  by (induction b) (simp_all add: hexlify_Nil hexlify_Cons)

subsection \<open>The sequence text\<close>

lemma le_sum_four:
  "(\<Sum>i<4. of_char ([b0, b1, b2, b3] ! i) * 256 ^ i) =
     (of_char b0 + 256 * of_char b1 + 65536 * of_char b2 + 16777216 * of_char b3 :: nat)"
proof -
  have "{..<4::nat} = {0, 1, 2, 3}" by auto
  then show ?thesis by simp
qed

lemma handle_locals_four:
  assumes "2 \<le> length msg" and "length (last msg) = 4"
  shows "handle_locals msg =
     Inr (msg ! 0, msg ! 1, str_nat (\<Sum>i<4. of_char (last msg ! i) * 256 ^ i))"
proof -
  from assms(2) obtain b0 b1 b2 b3 where b: "last msg = [b0, b1, b2, b3]"
    by (rule length_four)
  show ?thesis
    by (simp only: handle_locals_frame [OF assms(1)] b struct_unpack_I_four le_sum_four) simp
qed

lemma handle_locals_other:
  assumes "2 \<le> length msg" and "length (last msg) \<noteq> 4"
  shows "handle_locals msg = Inr (msg ! 0, msg ! 1, ''Unknown'')"
  using assms by (simp add: handle_locals_frame)

lemma handle_locals_total:
  assumes "2 \<le> length msg"
  shows "\<exists>sequence. handle_locals msg = Inr (msg ! 0, msg ! 1, sequence)"
proof (cases "length (last msg) = 4")
  case True
  with assms show ?thesis by (simp add: handle_locals_four)
next
  case False
  with assms show ?thesis by (simp add: handle_locals_other)
qed

subsection \<open>One message\<close>

lemma handle_via_locals:
  "handle_locals msg = Inr (topic, body, sequence) \<Longrightarrow>
     handle pr msg w = handle_print pr topic body sequence w"
  by (simp add: handle_def)

lemma two_prints: "then_do (print_ok p out) (print_ok q) = (None, out @ [p, q])"
  by (simp add: then_do_def print_ok_def)

lemma handle_print_hashblock:
  "handle_print pr ''hashblock'' body sequence w =
     then_do (pr (PStr (''- HASH BLOCK ('' @ sequence @ '') -'')) w) (pr (PBytes (hexlify body)))"
  by (simp add: handle_print_def)

lemma handle_print_hashtx:
  "handle_print pr ''hashtx'' body sequence w =
     then_do (pr (PStr (''- HASH TX  ('' @ sequence @ '') -'')) w) (pr (PBytes (hexlify body)))"
  by (simp add: handle_print_def)

lemma handle_print_rawblock:
  "handle_print pr ''rawblock'' body sequence w =
     then_do (pr (PStr (''- RAW BLOCK HEADER ('' @ sequence @ '') -'')) w)
       (pr (PBytes (hexlify (take 80 body))))"
  by (simp add: handle_print_def)

lemma handle_print_rawtx:
  "handle_print pr ''rawtx'' body sequence w =
     then_do (pr (PStr (''- RAW TX ('' @ sequence @ '') -'')) w) (pr (PBytes (hexlify body)))"
  by (simp add: handle_print_def)

lemma handle_print_other:
  "topic \<notin> {''hashblock'', ''hashtx'', ''rawblock'', ''rawtx''} \<Longrightarrow>
     handle_print pr topic body sequence w = (None, w)"
  by (simp add: handle_print_def)

lemmas handle_print_topic =
  handle_print_hashblock handle_print_hashtx handle_print_rawblock handle_print_rawtx

lemma handle_print_ok_appends:
  "handle_print print_ok topic body sequence out =
     (None, out @ snd (handle_print print_ok topic body sequence []))"
proof (cases "topic \<in> {''hashblock'', ''hashtx'', ''rawblock'', ''rawtx''}")
  case True
  then consider "topic = ''hashblock''" | "topic = ''hashtx''" | "topic = ''rawblock''"
    | "topic = ''rawtx''" by blast
  then show ?thesis
    by cases (simp_all only: handle_print_topic two_prints snd_conv append_Nil)
next
  case False
  show ?thesis by (simp only: handle_print_other [OF False] snd_conv append_Nil2)
qed

lemma handle_ok_appends:
  assumes "2 \<le> length msg"
  shows "handle print_ok msg out = (None, out @ printed_for msg)"
proof -
  from assms obtain sequence where "handle_locals msg = Inr (msg ! 0, msg ! 1, sequence)"
    using handle_locals_total by blast
  then have "handle print_ok msg w = handle_print print_ok (msg ! 0) (msg ! 1) sequence w" for w
    by (rule handle_via_locals)
  then show ?thesis
    using handle_print_ok_appends [of "msg ! 0" "msg ! 1" sequence out]
    by (simp only: printed_for_def)
qed

subsection \<open>The chain of tasks\<close>

lemma run_append:
  "run pr (xs @ ys) w = then_do (run pr xs w) (run pr ys)"
proof (induction xs arbitrary: w)
  case Nil
  show ?case by (simp add: then_do_def)
next
  case (Cons x xs)
  show ?case
  proof (cases "handle pr x w")
    case (Pair r w')
    then show ?thesis
      by (cases r) (simp_all add: Cons.IH then_do_def)
  qed
qed

subsection \<open>What a message prints\<close>

lemma handle_ok_topic:
  assumes "2 \<le> length msg" and "handle_locals msg = Inr (msg ! 0, msg ! 1, sequence)"
  shows "msg ! 0 = ''hashblock'' \<Longrightarrow> handle print_ok msg out =
           (None, out @ [PStr (''- HASH BLOCK ('' @ sequence @ '') -''), PBytes (hexlify (msg ! 1))])"
    and "msg ! 0 = ''hashtx'' \<Longrightarrow> handle print_ok msg out =
           (None, out @ [PStr (''- HASH TX  ('' @ sequence @ '') -''), PBytes (hexlify (msg ! 1))])"
    and "msg ! 0 = ''rawblock'' \<Longrightarrow> handle print_ok msg out =
           (None, out @ [PStr (''- RAW BLOCK HEADER ('' @ sequence @ '') -''),
                         PBytes (hexlify (take 80 (msg ! 1)))])"
    and "msg ! 0 = ''rawtx'' \<Longrightarrow> handle print_ok msg out =
           (None, out @ [PStr (''- RAW TX ('' @ sequence @ '') -''), PBytes (hexlify (msg ! 1))])"
proof -
  have h: "handle print_ok msg out = handle_print print_ok (msg ! 0) (msg ! 1) sequence out"
    using assms(2) by (rule handle_via_locals)
  show "msg ! 0 = ''hashblock'' \<Longrightarrow> handle print_ok msg out =
           (None, out @ [PStr (''- HASH BLOCK ('' @ sequence @ '') -''), PBytes (hexlify (msg ! 1))])"
    by (simp only: h handle_print_hashblock two_prints)
  show "msg ! 0 = ''hashtx'' \<Longrightarrow> handle print_ok msg out =
           (None, out @ [PStr (''- HASH TX  ('' @ sequence @ '') -''), PBytes (hexlify (msg ! 1))])"
    by (simp only: h handle_print_hashtx two_prints)
  show "msg ! 0 = ''rawblock'' \<Longrightarrow> handle print_ok msg out =
           (None, out @ [PStr (''- RAW BLOCK HEADER ('' @ sequence @ '') -''),
                         PBytes (hexlify (take 80 (msg ! 1)))])"
    by (simp only: h handle_print_rawblock two_prints)
  show "msg ! 0 = ''rawtx'' \<Longrightarrow> handle print_ok msg out =
           (None, out @ [PStr (''- RAW TX ('' @ sequence @ '') -''), PBytes (hexlify (msg ! 1))])"
    by (simp only: h handle_print_rawtx two_prints)
qed

lemma printed_for_eval:
  "handle print_ok msg [] = (None, ps) \<Longrightarrow> printed_for msg = ps"
  by (simp add: printed_for_def)

section \<open>The claims of the specification\<close>

text \<open>
  Claim C8. A message of at least two parts (what the transport delivers) makes none of
  the three element accesses of \<open>handle\<close> raise: \<open>msg[0]\<close> is the first part, \<open>msg[1]\<close>
  the second, \<open>msg[-1]\<close> the last, and the first block of \<open>handle\<close> ends with its three
  local variables set. (A shorter message raises \<open>IndexError\<close>: \<open>handle_locals_short\<close>.)
\<close>

theorem frame_indexing_in_bounds:
  assumes "2 \<le> length msg"
  shows "getitem msg 0 = Inr (msg ! 0) \<and> getitem msg 1 = Inr (msg ! 1) \<and>
         getitem msg (- 1) = Inr (last msg) \<and>
         (\<exists>sequence. handle_locals msg = Inr (msg ! 0, msg ! 1, sequence))"
proof -
  from assms have "msg \<noteq> []" by auto
  then have "getitem msg (- 1) = Inr (last msg)" by (rule getitem_minus_one)
  with assms show ?thesis
    by (simp only: getitem_zero getitem_one handle_locals_total simp_thms)
qed

theorem frame_indexing_in_bounds_witness:
  "2 \<le> length [''hashtx'', ''ab'', ''cd'', [CHR 0x01, CHR 0x00, CHR 0x00, CHR 0x00]] \<and>
   getitem [''hashtx'', ''ab'', ''cd'', [CHR 0x01, CHR 0x00, CHR 0x00, CHR 0x00]] (- 1)
     = Inr [CHR 0x01, CHR 0x00, CHR 0x00, CHR 0x00] \<and>
   handle_locals [''hashtx'', ''ab'', ''cd'', [CHR 0x01, CHR 0x00, CHR 0x00, CHR 0x00]]
     = Inr (''hashtx'', ''ab'', ''1'')"
  using frame_indexing_in_bounds
    [of "[''hashtx'', ''ab'', ''cd'', [CHR 0x01, CHR 0x00, CHR 0x00, CHR 0x00]]"]
  by (simp add: handle_locals_def getitem_def struct_unpack_I_def str_nat.simps digit_char_def)

text \<open>
  Claim C3. When the last part of a message is not four bytes long, \<open>sequence\<close> keeps its
  initial value, the text \<open>Unknown\<close>, whatever the topic is, and the second block of
  \<open>handle\<close> runs with that value. It is the script's value for an unknown sequence
  number: no number is printed as \<open>Unknown\<close>.
\<close>

theorem sequence_unknown_without_four_byte_trailer:
  assumes "2 \<le> length msg" and "length (last msg) \<noteq> 4"
  shows "handle_locals msg = Inr (msg ! 0, msg ! 1, ''Unknown'') \<and>
         handle pr msg w = handle_print pr (msg ! 0) (msg ! 1) ''Unknown'' w \<and>
         (\<forall>n. str_nat n \<noteq> ''Unknown'')"
proof -
  from assms have "handle_locals msg = Inr (msg ! 0, msg ! 1, ''Unknown'')"
    by (rule handle_locals_other)
  moreover from this have "handle pr msg w = handle_print pr (msg ! 0) (msg ! 1) ''Unknown'' w"
    by (rule handle_via_locals)
  ultimately show ?thesis
    using str_nat_not_Unknown by blast
qed

theorem sequence_unknown_without_four_byte_trailer_witness:
  "2 \<le> length [''hashtx'', replicate 32 (CHR 0xAB)] \<and>
   length (last [''hashtx'', replicate 32 (CHR 0xAB)]) \<noteq> 4 \<and>
   handle_locals [''hashtx'', replicate 32 (CHR 0xAB)]
     = Inr (''hashtx'', replicate 32 (CHR 0xAB), ''Unknown'') \<and>
   handle print_ok [''hashtx'', replicate 32 (CHR 0xAB)] []
     = (None, [PStr ''- HASH TX  (Unknown) -'', PBytes (hexlify (replicate 32 (CHR 0xAB)))])"
  using sequence_unknown_without_four_byte_trailer
    [of "[''hashtx'', replicate 32 (CHR 0xAB)]" print_ok "[]"]
  by (simp add: handle_print_hashtx two_prints)

text \<open>
  Claim C9. In a message of two parts the last part is the body. When that body is four
  bytes long, \<open>sequence\<close> is the decimal text of the body read as a little-endian unsigned
  integer, and not \<open>Unknown\<close>.
\<close>

theorem two_part_frame_four_byte_body_is_sequence:
  "handle_locals [topic, [b0, b1, b2, b3]] =
     Inr (topic, [b0, b1, b2, b3],
          str_nat (of_char b0 + 256 * of_char b1 + 65536 * of_char b2 + 16777216 * of_char b3)) \<and>
   str_nat (of_char b0 + 256 * of_char b1 + 65536 * of_char b2 + 16777216 * of_char b3)
     \<noteq> ''Unknown''"
proof -
  have "2 \<le> length [topic, [b0, b1, b2, b3]]" by simp
  then have "handle_locals [topic, [b0, b1, b2, b3]] =
     Inr (topic, [b0, b1, b2, b3],
          str_nat (of_char b0 + 256 * of_char b1 + 65536 * of_char b2 + 16777216 * of_char b3))"
    by (simp add: handle_locals_frame struct_unpack_I_four)
  then show ?thesis
    by (simp only: str_nat_not_Unknown simp_thms)
qed

text \<open>
  Claim C10. \<open>handle\<close> reads the first, the second and the last part of a message only:
  two messages of at least two parts that agree on these three give the same local
  variables and have the same effect on any output, whatever the parts in between are.
\<close>

theorem handle_reads_first_second_last_only:
  assumes "2 \<le> length m1" and "2 \<le> length m2"
    and "m1 ! 0 = m2 ! 0" and "m1 ! 1 = m2 ! 1" and "last m1 = last m2"
  shows "handle_locals m1 = handle_locals m2 \<and> handle pr m1 w = handle pr m2 w"
proof -
  have "handle_locals m1 = handle_locals m2"
    by (simp only: handle_locals_frame [OF assms(1)] handle_locals_frame [OF assms(2)] assms(3-5))
  then show ?thesis
    by (simp add: handle_def)
qed

theorem handle_reads_first_second_last_only_witness:
  "2 \<le> length [''rawtx'', ''ab'', ''ignored'', ''also ignored'', [CHR 0x05, CHR 0x00, CHR 0x00, CHR 0x00]] \<and>
   2 \<le> length [''rawtx'', ''ab'', [CHR 0x05, CHR 0x00, CHR 0x00, CHR 0x00]] \<and>
   last [''rawtx'', ''ab'', ''ignored'', ''also ignored'', [CHR 0x05, CHR 0x00, CHR 0x00, CHR 0x00]]
     = last [''rawtx'', ''ab'', [CHR 0x05, CHR 0x00, CHR 0x00, CHR 0x00]] \<and>
   handle print_ok
     [''rawtx'', ''ab'', ''ignored'', ''also ignored'', [CHR 0x05, CHR 0x00, CHR 0x00, CHR 0x00]] []
     = (None, [PStr ''- RAW TX (5) -'', PBytes ''6162'']) \<and>
   handle print_ok [''rawtx'', ''ab'', [CHR 0x05, CHR 0x00, CHR 0x00, CHR 0x00]] []
     = (None, [PStr ''- RAW TX (5) -'', PBytes ''6162''])"
proof -
  have "handle print_ok [''rawtx'', ''ab'', [CHR 0x05, CHR 0x00, CHR 0x00, CHR 0x00]] []
     = (None, [PStr ''- RAW TX (5) -'', PBytes ''6162''])"
    by (simp add: handle_def handle_locals_def getitem_def struct_unpack_I_def str_nat.simps
        digit_char_def handle_print_rawtx two_prints hexlify_def hex_char_def)
  with handle_reads_first_second_last_only
    [of "[''rawtx'', ''ab'', ''ignored'', ''also ignored'', [CHR 0x05, CHR 0x00, CHR 0x00, CHR 0x00]]"
        "[''rawtx'', ''ab'', [CHR 0x05, CHR 0x00, CHR 0x00, CHR 0x00]]" print_ok "[]"]
  show ?thesis by simp
qed

text \<open>
  Claim C4. A message (of at least two parts) whose topic is none of the four literals
  makes \<open>handle\<close> complete without raising and without a single call of \<open>print\<close>: the
  output is left as it was, whatever the printer would have done, and the chain of tasks
  goes on with the next message.
\<close>

theorem unrecognized_topic_discarded:
  assumes "2 \<le> length msg"
    and "msg ! 0 \<notin> {''hashblock'', ''hashtx'', ''rawblock'', ''rawtx''}"
  shows "handle pr msg w = (None, w) \<and> run pr (msg # msgs) w = run pr msgs w"
proof -
  from assms(1) obtain sequence where "handle_locals msg = Inr (msg ! 0, msg ! 1, sequence)"
    using handle_locals_total by blast
  then have "handle pr msg w = handle_print pr (msg ! 0) (msg ! 1) sequence w"
    by (rule handle_via_locals)
  also have "\<dots> = (None, w)"
    using assms(2) by (rule handle_print_other)
  finally have "handle pr msg w = (None, w)" .
  then show ?thesis by simp
qed

theorem unrecognized_topic_discarded_witness:
  "2 \<le> length [''unknowntopic'', ''data''] \<and>
   [''unknowntopic'', ''data''] ! 0 \<notin> {''hashblock'', ''hashtx'', ''rawblock'', ''rawtx''} \<and>
   handle (print_flaky 0) [''unknowntopic'', ''data''] ([], 0) = (None, ([], 0)) \<and>
   run (print_flaky 0) [[''unknowntopic'', ''data''], [''hashtx'', ''ab'']] ([], 0)
     = (Some OSError, ([], 1))"
proof -
  have "handle_locals [''hashtx'', ''ab''] = Inr (''hashtx'', ''ab'', ''Unknown'')"
    by (simp add: handle_locals_def getitem_def)
  then have "handle (print_flaky 0) [''hashtx'', ''ab''] ([], 0) = (Some OSError, ([], 1))"
    by (simp add: handle_via_locals handle_print_hashtx then_do_def print_flaky_def)
  with unrecognized_topic_discarded
    [of "[''unknowntopic'', ''data'']" "print_flaky 0" "([], 0)" "[[''hashtx'', ''ab'']]"]
  show ?thesis by simp
qed

text \<open>
  Claim C1. For a \<open>rawblock\<close> message the hex dump printed is that of \<open>body[:80]\<close>, the
  first 80 bytes of the body, or all of it when it is shorter: \<open>min(80, len(body))\<close>
  bytes, and the slice never raises. For the three other topics the dump is that of the
  whole body. (By \<open>hexlify_inj\<close> the dump determines the bytes dumped.)
\<close>

theorem rawblock_payload_first_80_bytes_others_whole:
  assumes "2 \<le> length msg"
  shows "(msg ! 0 = ''rawblock'' \<longrightarrow>
            (\<exists>header. handle print_ok msg out =
               (None, out @ [PStr header, PBytes (hexlify (take 80 (msg ! 1)))])) \<and>
            length (take 80 (msg ! 1)) = min 80 (length (msg ! 1))) \<and>
         (msg ! 0 \<in> {''hashblock'', ''hashtx'', ''rawtx''} \<longrightarrow>
            (\<exists>header. handle print_ok msg out =
               (None, out @ [PStr header, PBytes (hexlify (msg ! 1))])))"
proof -
  from assms obtain sequence where loc: "handle_locals msg = Inr (msg ! 0, msg ! 1, sequence)"
    using handle_locals_total by blast
  note topic = handle_ok_topic [OF assms loc, of out]
  have "msg ! 0 = ''rawblock'' \<longrightarrow>
          (\<exists>header. handle print_ok msg out =
             (None, out @ [PStr header, PBytes (hexlify (take 80 (msg ! 1)))]))"
    using topic(3) by blast
  moreover have "length (take 80 (msg ! 1)) = min 80 (length (msg ! 1))"
    by simp
  moreover have "msg ! 0 \<in> {''hashblock'', ''hashtx'', ''rawtx''} \<longrightarrow>
          (\<exists>header. handle print_ok msg out =
             (None, out @ [PStr header, PBytes (hexlify (msg ! 1))]))"
    using topic(1,2,4) by blast
  ultimately show ?thesis by blast
qed

theorem rawblock_payload_first_80_bytes_others_whole_witness:
  "2 \<le> length [''rawblock'', replicate 84 (CHR ''a''), [CHR 0x07, CHR 0x00, CHR 0x00, CHR 0x00]] \<and>
   [''rawblock'', replicate 84 (CHR ''a''), [CHR 0x07, CHR 0x00, CHR 0x00, CHR 0x00]] ! 0 = ''rawblock'' \<and>
   handle print_ok
     [''rawblock'', replicate 84 (CHR ''a''), [CHR 0x07, CHR 0x00, CHR 0x00, CHR 0x00]] []
     = (None, [PStr ''- RAW BLOCK HEADER (7) -'', PBytes (hexlify (replicate 80 (CHR ''a'')))]) \<and>
   length (replicate 80 (CHR ''a'')) = min 80 (length (replicate 84 (CHR ''a'')))"
  using rawblock_payload_first_80_bytes_others_whole
    [of "[''rawblock'', replicate 84 (CHR ''a''), [CHR 0x07, CHR 0x00, CHR 0x00, CHR 0x00]]" "[]"]
  by (simp add: handle_def handle_locals_def getitem_def struct_unpack_I_def str_nat.simps
      digit_char_def handle_print_rawblock two_prints)

text \<open>
  Claim C2. For a message with one of the four topics whose last part is four bytes long,
  \<open>sequence\<close> is the decimal text of the number \<open>n\<close> that these four bytes denote as a
  little-endian unsigned 32-bit integer, and the header line printed carries that text
  between its parentheses. (By \<open>str_nat_inj\<close> the text determines the number.)
\<close>

theorem sequence_is_little_endian_uint32:
  assumes "2 \<le> length msg"
    and "msg ! 0 \<in> {''hashblock'', ''hashtx'', ''rawblock'', ''rawtx''}"
    and "length (last msg) = 4"
  shows "\<exists>n label payload.
           n = (\<Sum>i<4. of_char (last msg ! i) * 256 ^ i) \<and> n < 2 ^ 32 \<and>
           handle_locals msg = Inr (msg ! 0, msg ! 1, str_nat n) \<and>
           handle print_ok msg out =
             (None, out @ [PStr (label @ ''('' @ str_nat n @ '') -''), PBytes payload])"
proof -
  define n :: nat where "n = (\<Sum>i<4. of_char (last msg ! i) * 256 ^ i)"
  from assms(3) obtain b0 b1 b2 b3 where b: "last msg = [b0, b1, b2, b3]"
    by (rule length_four)
  have "struct_unpack_I (last msg) = Inr n"
    by (simp only: n_def b struct_unpack_I_four le_sum_four)
  then have bound: "n < 2 ^ 32"
    by (rule struct_unpack_I_bound)
  have loc: "handle_locals msg = Inr (msg ! 0, msg ! 1, str_nat n)"
    unfolding n_def using assms(1,3) by (rule handle_locals_four)
  note topic = handle_ok_topic [OF assms(1) loc, of out]
  from assms(2) consider "msg ! 0 = ''hashblock''" | "msg ! 0 = ''hashtx''"
    | "msg ! 0 = ''rawblock''" | "msg ! 0 = ''rawtx''" by blast
  then have "\<exists>label payload. handle print_ok msg out =
      (None, out @ [PStr (label @ ''('' @ str_nat n @ '') -''), PBytes payload])"
  proof cases
    case 1
    from topic(1) [OF 1] show ?thesis
      by (intro exI [of _ "''- HASH BLOCK ''"] exI [of _ "hexlify (msg ! 1)"]) simp
  next
    case 2
    from topic(2) [OF 2] show ?thesis
      by (intro exI [of _ "''- HASH TX  ''"] exI [of _ "hexlify (msg ! 1)"]) simp
  next
    case 3
    from topic(3) [OF 3] show ?thesis
      by (intro exI [of _ "''- RAW BLOCK HEADER ''"] exI [of _ "hexlify (take 80 (msg ! 1))"]) simp
  next
    case 4
    from topic(4) [OF 4] show ?thesis
      by (intro exI [of _ "''- RAW TX ''"] exI [of _ "hexlify (msg ! 1)"]) simp
  qed
  with bound loc show ?thesis
    unfolding n_def by blast
qed

theorem sequence_is_little_endian_uint32_witness:
  "2 \<le> length [''hashblock'', ''ab'', [CHR 0x07, CHR 0x01, CHR 0x00, CHR 0x00]] \<and>
   [''hashblock'', ''ab'', [CHR 0x07, CHR 0x01, CHR 0x00, CHR 0x00]] ! 0
     \<in> {''hashblock'', ''hashtx'', ''rawblock'', ''rawtx''} \<and>
   length (last [''hashblock'', ''ab'', [CHR 0x07, CHR 0x01, CHR 0x00, CHR 0x00]]) = 4 \<and>
   (\<Sum>i<4. of_char ([CHR 0x07, CHR 0x01, CHR 0x00, CHR 0x00] ! i) * 256 ^ i) = (263 :: nat) \<and>
   handle print_ok [''hashblock'', ''ab'', [CHR 0x07, CHR 0x01, CHR 0x00, CHR 0x00]] []
     = (None, [PStr ''- HASH BLOCK (263) -'', PBytes ''6162''])"
  using sequence_is_little_endian_uint32
    [of "[''hashblock'', ''ab'', [CHR 0x07, CHR 0x01, CHR 0x00, CHR 0x00]]" "[]"]
  by (simp add: le_sum_four handle_def handle_locals_def getitem_def struct_unpack_I_def
      str_nat.simps digit_char_def handle_print_hashblock two_prints hexlify_def hex_char_def)

text \<open>
  Claim C5 says that an exception raised while a notification is handed over is caught
  and that the next message is still processed. The script hands a notification over by
  printing it, and \<open>handle\<close> has no \<open>try\<close>: on a standard output whose first write fails
  (and only that one), the first of two messages raises, the chain of tasks ends there
  with nothing printed for the second message, although processing the second message
  from that state would have printed it.
\<close>

theorem handler_exception_ends_the_chain:
  "handle (print_flaky 0) [''hashtx'', ''ab''] ([], 0) = (Some OSError, ([], 1)) \<and>
   run (print_flaky 0) [[''hashtx'', ''ab''], [''rawtx'', ''cd'']] ([], 0)
     = (Some OSError, ([], 1)) \<and>
   run (print_flaky 0) [[''rawtx'', ''cd'']] ([], 1)
     = (None, ([PStr ''- RAW TX (Unknown) -'', PBytes ''6364''], 3))"
proof -
  have l1: "handle_locals [''hashtx'', ''ab''] = Inr (''hashtx'', ''ab'', ''Unknown'')"
    by (simp add: handle_locals_def getitem_def)
  have l2: "handle_locals [''rawtx'', ''cd''] = Inr (''rawtx'', ''cd'', ''Unknown'')"
    by (simp add: handle_locals_def getitem_def)
  have h1: "handle (print_flaky 0) [''hashtx'', ''ab''] ([], 0) = (Some OSError, ([], 1))"
    by (simp add: handle_via_locals [OF l1] handle_print_hashtx then_do_def print_flaky_def)
  have h2: "handle (print_flaky 0) [''rawtx'', ''cd''] ([], 1)
     = (None, ([PStr ''- RAW TX (Unknown) -'', PBytes ''6364''], 3))"
    by (simp add: handle_via_locals [OF l2] handle_print_rawtx then_do_def print_flaky_def
        hexlify_def hex_char_def)
  from h1 h2 show ?thesis by simp
qed

text \<open>
  Claim C5, as the script behaves. When the messages before message N were processed
  without an exception and processing message N raises, the run ends with that exception
  and in the state message N left: no later message is received. Message N+1 is processed
  exactly when message N completed.
\<close>

theorem exception_in_handle_is_not_caught:
  assumes "run pr earlier w = (None, w1)"
  shows "(handle pr msg w1 = (Some e, w2) \<longrightarrow> run pr (earlier @ msg # later) w = (Some e, w2)) \<and>
         (handle pr msg w1 = (None, w2) \<longrightarrow> run pr (earlier @ msg # later) w = run pr later w2)"
proof -
  have "run pr (earlier @ msg # later) w = run pr (msg # later) w1"
    by (simp add: run_append assms then_do_def)
  then show ?thesis by simp
qed

theorem exception_in_handle_is_not_caught_witness:
  "run (print_flaky 2) [[''hashtx'', ''ab'']] ([], 0)
     = (None, ([PStr ''- HASH TX  (Unknown) -'', PBytes ''6162''], 2)) \<and>
   handle (print_flaky 2) [''hashblock'', ''cd''] ([PStr ''- HASH TX  (Unknown) -'', PBytes ''6162''], 2)
     = (Some OSError, ([PStr ''- HASH TX  (Unknown) -'', PBytes ''6162''], 3)) \<and>
   run (print_flaky 2) ([[''hashtx'', ''ab'']] @ [''hashblock'', ''cd''] # [[''rawtx'', ''ef'']]) ([], 0)
     = (Some OSError, ([PStr ''- HASH TX  (Unknown) -'', PBytes ''6162''], 3))"
proof -
  have l1: "handle_locals [''hashtx'', ''ab''] = Inr (''hashtx'', ''ab'', ''Unknown'')"
    by (simp add: handle_locals_def getitem_def)
  have l2: "handle_locals [''hashblock'', ''cd''] = Inr (''hashblock'', ''cd'', ''Unknown'')"
    by (simp add: handle_locals_def getitem_def)
  have h1: "handle (print_flaky 2) [''hashtx'', ''ab''] ([], 0)
     = (None, ([PStr ''- HASH TX  (Unknown) -'', PBytes ''6162''], 2))"
    by (simp add: handle_via_locals [OF l1] handle_print_hashtx then_do_def print_flaky_def
        hexlify_def hex_char_def)
  then have r1: "run (print_flaky 2) [[''hashtx'', ''ab'']] ([], 0)
     = (None, ([PStr ''- HASH TX  (Unknown) -'', PBytes ''6162''], 2))"
    by simp
  have h2: "handle (print_flaky 2) [''hashblock'', ''cd'']
       ([PStr ''- HASH TX  (Unknown) -'', PBytes ''6162''], 2)
     = (Some OSError, ([PStr ''- HASH TX  (Unknown) -'', PBytes ''6162''], 3))"
    by (simp add: handle_via_locals [OF l2] handle_print_hashblock then_do_def print_flaky_def)
  from exception_in_handle_is_not_caught [OF r1, of "[''hashblock'', ''cd'']" OSError
      "([PStr ''- HASH TX  (Unknown) -'', PBytes ''6162''], 3)" "[[''rawtx'', ''ef'']]"] h2
  have "run (print_flaky 2) ([[''hashtx'', ''ab'']] @ [''hashblock'', ''cd''] # [[''rawtx'', ''ef'']])
      ([], 0) = (Some OSError, ([PStr ''- HASH TX  (Unknown) -'', PBytes ''6162''], 3))"
    by blast
  with r1 h2 show ?thesis by blast
qed

text \<open>
  Claim C6. There is one \<open>handle\<close> task at a time, and it creates its successor in its
  last statement. So the lines printed for messages of at least two parts, on a standard
  output that accepts them, are the lines of the first message, then those of the second,
  and so on in the order of arrival: the block of one message is never interleaved with,
  or placed after, the block of a later one.
\<close>

theorem notifications_in_arrival_order:
  assumes "\<forall>f\<in>set msgs. 2 \<le> length f"
  shows "run print_ok msgs out = (None, out @ concat (map printed_for msgs))"
  using assms
proof (induction msgs arbitrary: out)
  case Nil
  show ?case by simp
next
  case (Cons m msgs)
  then have "2 \<le> length m" and rest: "\<forall>f\<in>set msgs. 2 \<le> length f"
    by simp_all
  then have "handle print_ok m out = (None, out @ printed_for m)"
    by (simp only: handle_ok_appends)
  then have "run print_ok (m # msgs) out = run print_ok msgs (out @ printed_for m)"
    by (simp only: run.simps prod.case option.case)
  also have "\<dots> = (None, (out @ printed_for m) @ concat (map printed_for msgs))"
    by (rule Cons.IH [OF rest])
  finally show ?case by simp
qed

theorem notifications_in_arrival_order_witness:
  "2 \<le> length [''hashtx'', ''ab''] \<and>
   2 \<le> length [''rawtx'', ''cd'', [CHR 0x02, CHR 0x00, CHR 0x00, CHR 0x00]] \<and>
   2 \<le> length [''hashblock'', ''ef''] \<and>
   run print_ok [[''hashtx'', ''ab''], [''rawtx'', ''cd'', [CHR 0x02, CHR 0x00, CHR 0x00, CHR 0x00]],
                 [''hashblock'', ''ef'']] []
     = (None, [PStr ''- HASH TX  (Unknown) -'', PBytes ''6162'',
               PStr ''- RAW TX (2) -'', PBytes ''6364'',
               PStr ''- HASH BLOCK (Unknown) -'', PBytes ''6566''])"
proof -
  have p1: "printed_for [''hashtx'', ''ab''] = [PStr ''- HASH TX  (Unknown) -'', PBytes ''6162'']"
    by (rule printed_for_eval)
      (simp add: handle_def handle_locals_def getitem_def handle_print_hashtx two_prints
        hexlify_def hex_char_def)
  have p2: "printed_for [''rawtx'', ''cd'', [CHR 0x02, CHR 0x00, CHR 0x00, CHR 0x00]]
      = [PStr ''- RAW TX (2) -'', PBytes ''6364'']"
    by (rule printed_for_eval)
      (simp add: handle_def handle_locals_def getitem_def struct_unpack_I_def str_nat.simps
        digit_char_def handle_print_rawtx two_prints hexlify_def hex_char_def)
  have p3: "printed_for [''hashblock'', ''ef''] = [PStr ''- HASH BLOCK (Unknown) -'', PBytes ''6566'']"
    by (rule printed_for_eval)
      (simp add: handle_def handle_locals_def getitem_def handle_print_hashblock two_prints
        hexlify_def hex_char_def)
  have len: "\<forall>f\<in>set [[''hashtx'', ''ab''],
      [''rawtx'', ''cd'', [CHR 0x02, CHR 0x00, CHR 0x00, CHR 0x00]], [''hashblock'', ''ef'']].
      2 \<le> length f"
    by simp
  from notifications_in_arrival_order [OF len, of "[]"] show ?thesis
    by (simp add: p1 p2 p3)
qed

end
